theory Spec2Isabelle
  imports Main
begin

section \<open>Library loans: the object store\<close>

text \<open>
  The program of \<^verbatim>\<open>app.py\<close> works on Python objects that are shared by reference: a
  \<^verbatim>\<open>Prestamo\<close> points to a \<^verbatim>\<open>Libro\<close> and a \<^verbatim>\<open>Usuario\<close>, a \<^verbatim>\<open>GestorPrestamos\<close> keeps a list
  of \<^verbatim>\<open>Prestamo\<close> objects, and the same book may be reached from several loans. The model
  keeps one store per class; a reference is the position of the object in the store of its
  class (objects are never freed, a new object goes to the end of its store).

  A \<^verbatim>\<open>datetime\<close> is the number of microseconds since the first instant that \<^verbatim>\<open>datetime\<close>
  can represent (year 1), a \<^verbatim>\<open>timedelta\<close> is a number of microseconds; \<^verbatim>\<open>datetime.max\<close> is the
  last microsecond of the year 9999. Each call of \<^verbatim>\<open>datetime.now()\<close> is a parameter of the
  operation that makes it.
\<close>

type_synonym ref = nat
type_synonym datetime = int
type_synonym timedelta = int

record libro =
  titulo :: string
  autor :: string
  isbn :: string
  disponible :: bool

record usuario =
  nombre :: string
  id_usuario :: string

record prestamo =
  libro :: ref
  usuario :: ref
  fecha_prestamo :: datetime
  fecha_devolucion :: datetime
  devuelto :: bool

text \<open>\<^verbatim>\<open>timedelta(days=n)\<close>, and the attribute \<^verbatim>\<open>.days\<close> of a \<^verbatim>\<open>timedelta\<close>: Python
  normalises a \<^verbatim>\<open>timedelta\<close> so that seconds and microseconds are not negative, hence
  \<^verbatim>\<open>.days\<close> is the floor of the duration divided by one day.\<close>

definition microseconds_per_day :: int where
  "microseconds_per_day = 86400000000"

definition timedelta_days :: "int \<Rightarrow> timedelta" where
  "timedelta_days n = n * microseconds_per_day"

definition days :: "timedelta \<Rightarrow> int" where
  "days td = td div microseconds_per_day"

text \<open>
  \<^verbatim>\<open>datetime + timedelta\<close> raises \<^verbatim>\<open>OverflowError\<close> when the sum is not a \<^verbatim>\<open>datetime\<close>, that is
  when it is before \<^verbatim>\<open>datetime.min\<close> or after \<^verbatim>\<open>datetime.max\<close>. The difference of two values
  of \<^verbatim>\<open>datetime\<close> is always a \<^verbatim>\<open>timedelta\<close> (whose range is wider), so the subtraction of
  \<^verbatim>\<open>devolver_libro\<close> raises nothing.
\<close>

datatype excepcion = OverflowError

definition datetime_min :: datetime where
  "datetime_min = 0"

definition datetime_max :: datetime where
  "datetime_max = 315537897599999999"

definition en_rango :: "datetime \<Rightarrow> bool" where
  "en_rango d \<longleftrightarrow> datetime_min \<le> d \<and> d \<le> datetime_max"

definition datetime_add :: "datetime \<Rightarrow> timedelta \<Rightarrow> excepcion + datetime" where
  "datetime_add d td = (if en_rango (d + td) then Inr (d + td) else Inl OverflowError)"

text \<open>The constructors. \<^verbatim>\<open>Prestamo.__init__\<close> calls \<^verbatim>\<open>datetime.now()\<close> twice: once for
  \<^verbatim>\<open>fecha_prestamo\<close> and once more for \<^verbatim>\<open>fecha_devolucion\<close>, where the addition of fourteen
  days may raise; then no object is made.\<close>

definition Libro_init :: "string \<Rightarrow> string \<Rightarrow> string \<Rightarrow> libro" where
  "Libro_init t a i = \<lparr>titulo = t, autor = a, isbn = i, disponible = True\<rparr>"

definition Usuario_init :: "string \<Rightarrow> string \<Rightarrow> usuario" where
  "Usuario_init n i = \<lparr>nombre = n, id_usuario = i\<rparr>"

definition Prestamo_init ::
  "ref \<Rightarrow> ref \<Rightarrow> datetime \<Rightarrow> datetime \<Rightarrow> excepcion + prestamo" where
  "Prestamo_init l u now1 now2 =
     (case datetime_add now2 (timedelta_days 14) of
        Inl e \<Rightarrow> Inl e
      | Inr f \<Rightarrow>
          Inr \<lparr>libro = l, usuario = u, fecha_prestamo = now1,
               fecha_devolucion = f, devuelto = False\<rparr>)"

subsection \<open>Fine calculators\<close>

datatype CalculadoraMulta = MultaEstandar | MultaEstudiante | MultaVIP

fun calcular :: "CalculadoraMulta \<Rightarrow> int \<Rightarrow> int" where
  "calcular MultaEstandar dias_retraso = dias_retraso * 10"
| "calcular MultaEstudiante dias_retraso = dias_retraso * 5"
| "calcular MultaVIP dias_retraso = 0"

subsection \<open>The console and the notifiers\<close>

text \<open>
  What the program prints is kept as a list of lines. A line is recorded by its kind and
  by the values that the f-string interpolates, not by its characters:
  \<^item> \<open>HasPrestado t d\<close> is the message \<^verbatim>\<open>Has prestado 't'. Fecha de devolucion: ...\<close>, where
    the date shown is \<^verbatim>\<open>d.strftime('%Y-%m-%d')\<close>;
  \<^item> \<open>EmailA dest m\<close> and \<open>SMSA dest m\<close> are the lines of the two notifiers;
  \<^item> \<open>NoDisponible t\<close>, \<open>PrestamoRealizado t n\<close>, \<open>YaDevuelto\<close>, \<open>Retraso dias multa\<close>,
    \<open>ATiempo\<close> and \<open>DevueltoPor t n\<close> are the lines of \<^verbatim>\<open>GestorPrestamos\<close>.
\<close>

datatype mensaje = HasPrestado string datetime

datatype linea =
    EmailA string mensaje
  | SMSA string mensaje
  | NoDisponible string
  | PrestamoRealizado string string
  | YaDevuelto
  | Retraso int int
  | ATiempo
  | DevueltoPor string string

datatype Notificador = NotificadorEmail | NotificadorSMS

text \<open>\<^verbatim>\<open>enviar\<close> prints one line and returns \<^verbatim>\<open>True\<close>.\<close>

fun enviar :: "Notificador \<Rightarrow> mensaje \<Rightarrow> string \<Rightarrow> linea \<times> bool" where
  "enviar NotificadorEmail m destinatario = (EmailA destinatario m, True)"
| "enviar NotificadorSMS m destinatario = (SMSA destinatario m, True)"

subsection \<open>The loan manager\<close>

record gestor_prestamos =
  calculadora_multa :: CalculadoraMulta
  notificador :: Notificador
  prestamos :: "ref list"

definition GestorPrestamos_init :: "CalculadoraMulta \<Rightarrow> Notificador \<Rightarrow> gestor_prestamos" where
  "GestorPrestamos_init c n = \<lparr>calculadora_multa = c, notificador = n, prestamos = []\<rparr>"

record estado =
  heap_libros :: "libro list"
  heap_usuarios :: "usuario list"
  heap_prestamos :: "prestamo list"
  heap_gestores :: "gestor_prestamos list"
  consola :: "linea list"

definition print :: "linea \<Rightarrow> estado \<Rightarrow> estado" where
  "print l s = s\<lparr>consola := consola s @ [l]\<rparr>"

text \<open>
  \<^verbatim>\<open>GestorPrestamos.realizar_prestamo(self, libro, usuario)\<close>. The arguments are references;
  \<open>now1\<close> and \<open>now2\<close> are the two clock readings of \<^verbatim>\<open>Prestamo.__init__\<close>. The result is
  \<open>None\<close> when a reference names no object of the store, which no Python caller can do;
  otherwise it is the state reached together with \<open>Inr\<close> of the value returned (\<^verbatim>\<open>None\<close> or the
  new loan) or \<open>Inl\<close> of the exception raised. The exception of \<^verbatim>\<open>Prestamo.__init__\<close> leaves
  the method after \<^verbatim>\<open>libro.disponible = False\<close> and before the loan is appended.
\<close>

definition realizar_prestamo ::
  "ref \<Rightarrow> ref \<Rightarrow> ref \<Rightarrow> datetime \<Rightarrow> datetime \<Rightarrow> estado
     \<Rightarrow> ((excepcion + ref option) \<times> estado) option" where
  "realizar_prestamo self l u now1 now2 s =
     (if self < length (heap_gestores s) \<and> l < length (heap_libros s)
         \<and> u < length (heap_usuarios s)
      then
        if \<not> disponible (heap_libros s ! l)
        then Some (Inr None, print (NoDisponible (titulo (heap_libros s ! l))) s)
        else
          let s1 = s\<lparr>heap_libros := (heap_libros s)[l := (heap_libros s ! l)\<lparr>disponible := False\<rparr>]\<rparr>
          in case Prestamo_init l u now1 now2 of
               Inl e \<Rightarrow> Some (Inl e, s1)
             | Inr prestamo \<Rightarrow>
                 let p = length (heap_prestamos s1);
                     s2 = s1\<lparr>heap_prestamos := heap_prestamos s1 @ [prestamo]\<rparr>;
                     g = heap_gestores s2 ! self;
                     s3 = s2\<lparr>heap_gestores :=
                             (heap_gestores s2)[self := g\<lparr>prestamos := prestamos g @ [p]\<rparr>]\<rparr>;
                     m = HasPrestado (titulo (heap_libros s3 ! l))
                           (fecha_devolucion (heap_prestamos s3 ! p));
                     s4 = print (fst (enviar (notificador g) m (nombre (heap_usuarios s3 ! u)))) s3;
                     s5 = print (PrestamoRealizado (titulo (heap_libros s4 ! l))
                                   (nombre (heap_usuarios s4 ! u))) s4
                 in Some (Inr (Some p), s5)
      else None)"

text \<open>
  \<^verbatim>\<open>GestorPrestamos.devolver_libro(self, prestamo)\<close>; \<open>now\<close> is the clock reading
  \<^verbatim>\<open>fecha_actual\<close>. The method returns nothing, so the result is the state reached, and
  \<open>None\<close> when a reference names no object of the store.
\<close>

definition devolver_libro :: "ref \<Rightarrow> ref \<Rightarrow> datetime \<Rightarrow> estado \<Rightarrow> estado option" where
  "devolver_libro self p now s =
     (if self < length (heap_gestores s) \<and> p < length (heap_prestamos s)
         \<and> libro (heap_prestamos s ! p) < length (heap_libros s)
         \<and> usuario (heap_prestamos s ! p) < length (heap_usuarios s)
      then
        if devuelto (heap_prestamos s ! p)
        then Some (print YaDevuelto s)
        else
          let fecha_actual = now;
              due = fecha_devolucion (heap_prestamos s ! p);
              s1 = (if fecha_actual > due
                    then
                      let dias_retraso = days (fecha_actual - due);
                          multa = calcular (calculadora_multa (heap_gestores s ! self)) dias_retraso
                      in print (Retraso dias_retraso multa) s
                    else print ATiempo s);
              s2 = s1\<lparr>heap_prestamos :=
                       (heap_prestamos s1)[p := (heap_prestamos s1 ! p)\<lparr>devuelto := True\<rparr>]\<rparr>;
              l = libro (heap_prestamos s2 ! p);
              s3 = s2\<lparr>heap_libros := (heap_libros s2)[l := (heap_libros s2 ! l)\<lparr>disponible := True\<rparr>]\<rparr>
          in Some (print (DevueltoPor (titulo (heap_libros s3 ! l))
                            (nombre (heap_usuarios s3 ! usuario (heap_prestamos s3 ! p)))) s3)
      else None)"

subsection \<open>Runs of the program\<close>

text \<open>
  A run is a sequence of calls of the two methods, on any manager, with any arguments and
  any clock readings. A run stops with \<open>None\<close> at a call whose references name no object. A call that
  raises leaves its state to the calls that follow, as for a caller that catches the exception.
\<close>

datatype llamada =
    RealizarPrestamo ref ref ref datetime datetime
  | DevolverLibro ref ref datetime

fun ejecutar :: "llamada \<Rightarrow> estado \<Rightarrow> estado option" where
  "ejecutar (RealizarPrestamo self l u now1 now2) s =
     map_option snd (realizar_prestamo self l u now1 now2 s)"
| "ejecutar (DevolverLibro self p now) s = devolver_libro self p now s"

fun ejecutar_todas :: "llamada list \<Rightarrow> estado \<Rightarrow> estado option" where
  "ejecutar_todas [] s = Some s"
| "ejecutar_todas (c # cs) s =
     (case ejecutar c s of None \<Rightarrow> None | Some s' \<Rightarrow> ejecutar_todas cs s')"

text \<open>An initial state: books, users and managers exist, no loan has been created yet
  (each manager's list is empty, as \<^verbatim>\<open>GestorPrestamos.__init__\<close> leaves it).\<close>

definition inicial :: "estado \<Rightarrow> bool" where
  "inicial s \<longleftrightarrow> heap_prestamos s = [] \<and> (\<forall>g \<in> set (heap_gestores s). prestamos g = [])"

text \<open>The references held by the objects of the store name objects of the store.\<close>

definition heap_ok :: "estado \<Rightarrow> bool" where
  "heap_ok s \<longleftrightarrow>
     (\<forall>p < length (heap_prestamos s).
        libro (heap_prestamos s ! p) < length (heap_libros s) \<and>
        usuario (heap_prestamos s ! p) < length (heap_usuarios s)) \<and>
     (\<forall>g < length (heap_gestores s).
        \<forall>p \<in> set (prestamos (heap_gestores s ! g)). p < length (heap_prestamos s))"

text \<open>A book with a loan that is not returned is not available, and a book has at most one
  such loan.\<close>

definition prestado_no_disponible :: "estado \<Rightarrow> bool" where
  "prestado_no_disponible s \<longleftrightarrow>
     (\<forall>p < length (heap_prestamos s).
        \<not> devuelto (heap_prestamos s ! p) \<longrightarrow>
        \<not> disponible (heap_libros s ! libro (heap_prestamos s ! p)))"

definition un_prestamo_por_libro :: "estado \<Rightarrow> bool" where
  "un_prestamo_por_libro s \<longleftrightarrow>
     (\<forall>p < length (heap_prestamos s). \<forall>q < length (heap_prestamos s).
        \<not> devuelto (heap_prestamos s ! p) \<and> \<not> devuelto (heap_prestamos s ! q) \<and>
        libro (heap_prestamos s ! p) = libro (heap_prestamos s ! q) \<longrightarrow> p = q)"

definition invariante :: "estado \<Rightarrow> bool" where
  "invariante s \<longleftrightarrow> heap_ok s \<and> prestado_no_disponible s \<and> un_prestamo_por_libro s"

definition llamada_valida :: "llamada \<Rightarrow> estado \<Rightarrow> bool" where
  "llamada_valida c s =
     (case c of
        RealizarPrestamo self l u now1 now2 \<Rightarrow>
          self < length (heap_gestores s) \<and> l < length (heap_libros s)
          \<and> u < length (heap_usuarios s)
      | DevolverLibro self p now \<Rightarrow>
          self < length (heap_gestores s) \<and> p < length (heap_prestamos s))"

subsection \<open>The objects of \<^verbatim>\<open>main\<close>\<close>

text \<open>
  The store that \<^verbatim>\<open>main\<close> builds before its first call (two books, two users, two
  managers; accents are left out of the strings), the store after the first loan, made at the
  clock readings \<open>t_prestamo\<close> and one microsecond later, and the store after that loan has
  been returned. \<open>t_prestamo\<close> is 2024-01-01 00:00:00, and \<open>t_fin_rango\<close> is 9999-12-25
  00:00:00, seven days before the end of the range of \<^verbatim>\<open>datetime\<close>.
\<close>

definition t_prestamo :: datetime where
  "t_prestamo = 63839664000000000"

definition t_fin_rango :: datetime where
  "t_fin_rango = 315537292800000000"

definition ejemplo :: estado where
  "ejemplo =
     \<lparr>heap_libros =
        [Libro_init ''1984'' ''George Orwell'' ''978-0-452-28423-4'',
         Libro_init ''Cien anos de soledad'' ''Gabriel Garcia Marquez'' ''978-84-376-0494-7''],
      heap_usuarios = [Usuario_init ''Ana Garcia'' ''U001'', Usuario_init ''Carlos Lopez'' ''U002''],
      heap_prestamos = [],
      heap_gestores =
        [GestorPrestamos_init MultaEstandar NotificadorEmail,
         GestorPrestamos_init MultaEstudiante NotificadorSMS],
      consola = []\<rparr>"

definition ejemplo_prestado :: estado where
  "ejemplo_prestado =
     \<lparr>heap_libros =
        [\<lparr>titulo = ''1984'', autor = ''George Orwell'', isbn = ''978-0-452-28423-4'',
          disponible = False\<rparr>,
         Libro_init ''Cien anos de soledad'' ''Gabriel Garcia Marquez'' ''978-84-376-0494-7''],
      heap_usuarios = [Usuario_init ''Ana Garcia'' ''U001'', Usuario_init ''Carlos Lopez'' ''U002''],
      heap_prestamos =
        [\<lparr>libro = 0, usuario = 0, fecha_prestamo = t_prestamo,
          fecha_devolucion = t_prestamo + 1 + timedelta_days 14, devuelto = False\<rparr>],
      heap_gestores =
        [\<lparr>calculadora_multa = MultaEstandar, notificador = NotificadorEmail, prestamos = [0]\<rparr>,
         GestorPrestamos_init MultaEstudiante NotificadorSMS],
      consola =
        [EmailA ''Ana Garcia'' (HasPrestado ''1984'' (t_prestamo + 1 + timedelta_days 14)),
         PrestamoRealizado ''1984'' ''Ana Garcia'']\<rparr>"

definition ejemplo_devuelto :: estado where
  "ejemplo_devuelto =
     ejemplo_prestado
       \<lparr>heap_libros := (heap_libros ejemplo_prestado)
            [0 := (heap_libros ejemplo_prestado ! 0)\<lparr>disponible := True\<rparr>],
        heap_prestamos := [(heap_prestamos ejemplo_prestado ! 0)\<lparr>devuelto := True\<rparr>],
        consola := consola ejemplo_prestado @ [ATiempo, DevueltoPor ''1984'' ''Ana Garcia'']\<rparr>"

section \<open>The two methods, branch by branch\<close>

lemma realizar_prestamo_no_disponible:
  assumes "self < length (heap_gestores s)" "l < length (heap_libros s)"
    "u < length (heap_usuarios s)" "\<not> disponible (heap_libros s ! l)"
  shows "realizar_prestamo self l u now1 now2 s =
           Some (Inr None, s\<lparr>consola := consola s @ [NoDisponible (titulo (heap_libros s ! l))]\<rparr>)"
  using assms by (simp add: realizar_prestamo_def print_def)

lemma realizar_prestamo_disponible:
  assumes "self < length (heap_gestores s)" "l < length (heap_libros s)"
    "u < length (heap_usuarios s)" "disponible (heap_libros s ! l)"
    "en_rango (now2 + timedelta_days 14)"
  shows "realizar_prestamo self l u now1 now2 s =
           Some (Inr (Some (length (heap_prestamos s))),
             s\<lparr>heap_libros := (heap_libros s)[l := (heap_libros s ! l)\<lparr>disponible := False\<rparr>],
               heap_prestamos := heap_prestamos s @
                 [\<lparr>libro = l, usuario = u, fecha_prestamo = now1,
                   fecha_devolucion = now2 + timedelta_days 14, devuelto = False\<rparr>],
               heap_gestores := (heap_gestores s)[self := (heap_gestores s ! self)
                  \<lparr>prestamos := prestamos (heap_gestores s ! self) @ [length (heap_prestamos s)]\<rparr>],
               consola := consola s @
                 [fst (enviar (notificador (heap_gestores s ! self))
                    (HasPrestado (titulo (heap_libros s ! l)) (now2 + timedelta_days 14))
                    (nombre (heap_usuarios s ! u))),
                  PrestamoRealizado (titulo (heap_libros s ! l)) (nombre (heap_usuarios s ! u))]\<rparr>)"
  using assms
  by (simp add: realizar_prestamo_def print_def Let_def Prestamo_init_def datetime_add_def)

lemma realizar_prestamo_overflow:
  assumes "self < length (heap_gestores s)" "l < length (heap_libros s)"
    "u < length (heap_usuarios s)" "disponible (heap_libros s ! l)"
    "\<not> en_rango (now2 + timedelta_days 14)"
  shows "realizar_prestamo self l u now1 now2 s =
           Some (Inl OverflowError,
             s\<lparr>heap_libros := (heap_libros s)[l := (heap_libros s ! l)\<lparr>disponible := False\<rparr>]\<rparr>)"
  using assms
  by (simp add: realizar_prestamo_def Let_def Prestamo_init_def datetime_add_def)

lemma devolver_libro_devuelto:
  assumes "self < length (heap_gestores s)" "p < length (heap_prestamos s)"
    "libro (heap_prestamos s ! p) < length (heap_libros s)"
    "usuario (heap_prestamos s ! p) < length (heap_usuarios s)"
    "devuelto (heap_prestamos s ! p)"
  shows "devolver_libro self p now s = Some (s\<lparr>consola := consola s @ [YaDevuelto]\<rparr>)"
  using assms by (simp add: devolver_libro_def print_def)

lemma devolver_libro_pendiente:
  assumes "self < length (heap_gestores s)" "p < length (heap_prestamos s)"
    "libro (heap_prestamos s ! p) < length (heap_libros s)"
    "usuario (heap_prestamos s ! p) < length (heap_usuarios s)"
    "\<not> devuelto (heap_prestamos s ! p)"
  shows "devolver_libro self p now s =
     Some (s\<lparr>heap_prestamos := (heap_prestamos s)[p := (heap_prestamos s ! p)\<lparr>devuelto := True\<rparr>],
             heap_libros := (heap_libros s)[libro (heap_prestamos s ! p) :=
                 (heap_libros s ! libro (heap_prestamos s ! p))\<lparr>disponible := True\<rparr>],
             consola := consola s @
               [if fecha_devolucion (heap_prestamos s ! p) < now
                then Retraso (days (now - fecha_devolucion (heap_prestamos s ! p)))
                       (calcular (calculadora_multa (heap_gestores s ! self))
                          (days (now - fecha_devolucion (heap_prestamos s ! p))))
                else ATiempo,
                DevueltoPor (titulo (heap_libros s ! libro (heap_prestamos s ! p)))
                  (nombre (heap_usuarios s ! usuario (heap_prestamos s ! p)))]\<rparr>)"
  using assms by (simp add: devolver_libro_def print_def Let_def)

lemma devolver_libro_None:
  "devolver_libro self p now s = None \<longleftrightarrow>
     \<not> (self < length (heap_gestores s) \<and> p < length (heap_prestamos s)
        \<and> libro (heap_prestamos s ! p) < length (heap_libros s)
        \<and> usuario (heap_prestamos s ! p) < length (heap_usuarios s))"
  by (simp add: devolver_libro_def Let_def)

lemma realizar_prestamo_None:
  "realizar_prestamo self l u now1 now2 s = None \<longleftrightarrow>
     \<not> (self < length (heap_gestores s) \<and> l < length (heap_libros s)
        \<and> u < length (heap_usuarios s))"
  by (simp add: realizar_prestamo_def Let_def split: sum.splits)

subsection \<open>Whole days of a duration\<close>

lemma microseconds_per_day_pos: "0 < microseconds_per_day"
  by (simp add: microseconds_per_day_def)

lemma days_nonneg: "0 \<le> d \<Longrightarrow> 0 \<le> days d"
  by (simp add: days_def microseconds_per_day_def pos_imp_zdiv_nonneg_iff)

lemma days_lower: "timedelta_days (days d) \<le> d"
  by (simp add: days_def timedelta_days_def microseconds_per_day_def)

lemma days_upper: "d < timedelta_days (days d + 1)"
proof -
  have "d = days d * microseconds_per_day + d mod microseconds_per_day"
    by (simp add: days_def)
  moreover have "d mod microseconds_per_day < microseconds_per_day"
    using microseconds_per_day_pos by (rule pos_mod_bound)
  ultimately have "d < days d * microseconds_per_day + microseconds_per_day"
    by linarith
  then show ?thesis
    by (simp add: timedelta_days_def distrib_right)
qed

subsection \<open>The calls of \<^verbatim>\<open>main\<close>, evaluated\<close>

lemmas ej_defs = ejemplo_def ejemplo_prestado_def ejemplo_devuelto_def Libro_init_def Usuario_init_def
  GestorPrestamos_init_def

lemma ejemplo_paso:
  "realizar_prestamo 0 0 0 t_prestamo (t_prestamo + 1) ejemplo = Some (Inr (Some 0), ejemplo_prestado)"
  by (simp add: realizar_prestamo_def ej_defs print_def Prestamo_init_def Let_def
      datetime_add_def en_rango_def datetime_min_def datetime_max_def t_prestamo_def
      timedelta_days_def microseconds_per_day_def)

lemma ejemplo_paso2: "devolver_libro 0 0 (t_prestamo + 5) ejemplo_prestado = Some ejemplo_devuelto"
  by (simp add: devolver_libro_def ej_defs print_def Let_def timedelta_days_def microseconds_per_day_def)

section \<open>Checkout and return\<close>

text \<open>
  C1. Checkout of an available book, at a clock reading whose due time (the second reading
  plus fourteen days) is a \<^verbatim>\<open>datetime\<close>, succeeds: \<^verbatim>\<open>realizar_prestamo\<close> returns a new loan
  \<open>p\<close>, the book is no longer available, \<open>p\<close> refers to the book and to the user and is not
  returned, \<open>p\<close> is the one object added to the store of loans, and \<open>p\<close> is appended to the
  list of the manager.
\<close>

theorem realizar_prestamo_libro_disponible:
  assumes "self < length (heap_gestores s)" and "l < length (heap_libros s)"
    and "u < length (heap_usuarios s)" and "disponible (heap_libros s ! l)"
    and "en_rango (now2 + timedelta_days 14)"
  shows "\<exists>p s'. realizar_prestamo self l u now1 now2 s = Some (Inr (Some p), s')
           \<and> p = length (heap_prestamos s)
           \<and> heap_libros s' = (heap_libros s)[l := (heap_libros s ! l)\<lparr>disponible := False\<rparr>]
           \<and> \<not> disponible (heap_libros s' ! l)
           \<and> heap_prestamos s' = heap_prestamos s @ [heap_prestamos s' ! p]
           \<and> libro (heap_prestamos s' ! p) = l
           \<and> usuario (heap_prestamos s' ! p) = u
           \<and> \<not> devuelto (heap_prestamos s' ! p)
           \<and> prestamos (heap_gestores s' ! self) = prestamos (heap_gestores s ! self) @ [p]"
  using assms by (simp add: realizar_prestamo_disponible)

theorem realizar_prestamo_libro_disponible_witness:
  "0 < length (heap_gestores ejemplo) \<and> 0 < length (heap_libros ejemplo)
   \<and> 0 < length (heap_usuarios ejemplo) \<and> disponible (heap_libros ejemplo ! 0)
   \<and> en_rango (t_prestamo + 1 + timedelta_days 14)
   \<and> (\<exists>p s'. realizar_prestamo 0 0 0 t_prestamo (t_prestamo + 1) ejemplo = Some (Inr (Some p), s')
           \<and> p = length (heap_prestamos ejemplo)
           \<and> heap_libros s' = (heap_libros ejemplo)[0 := (heap_libros ejemplo ! 0)\<lparr>disponible := False\<rparr>]
           \<and> \<not> disponible (heap_libros s' ! 0)
           \<and> heap_prestamos s' = heap_prestamos ejemplo @ [heap_prestamos s' ! p]
           \<and> libro (heap_prestamos s' ! p) = 0
           \<and> usuario (heap_prestamos s' ! p) = 0
           \<and> \<not> devuelto (heap_prestamos s' ! p)
           \<and> prestamos (heap_gestores s' ! 0) = prestamos (heap_gestores ejemplo ! 0) @ [p])
   \<and> realizar_prestamo 0 0 0 t_prestamo (t_prestamo + 1) ejemplo
        = Some (Inr (Some 0), ejemplo_prestado)"
proof -
  have h1: "0 < length (heap_gestores ejemplo)" by (simp add: ejemplo_def)
  have h2: "0 < length (heap_libros ejemplo)" by (simp add: ejemplo_def)
  have h3: "0 < length (heap_usuarios ejemplo)" by (simp add: ejemplo_def)
  have h4: "disponible (heap_libros ejemplo ! 0)" by (simp add: ejemplo_def Libro_init_def)
  have h5: "en_rango (t_prestamo + 1 + timedelta_days 14)"
    by (simp add: en_rango_def datetime_min_def datetime_max_def t_prestamo_def
        timedelta_days_def microseconds_per_day_def)
  from realizar_prestamo_libro_disponible[OF h1 h2 h3 h4 h5, of t_prestamo]
    h1 h2 h3 h4 h5 ejemplo_paso
  show ?thesis by blast
qed

text \<open>Without the condition on the clock the checkout can fail: in the last fourteen days
  of the year 9999 the book of \<^verbatim>\<open>main\<close> is available, and \<^verbatim>\<open>realizar_prestamo\<close> raises
  \<^verbatim>\<open>OverflowError\<close>, with the book marked as not available and no loan made.\<close>

theorem realizar_prestamo_libro_disponible_counterexample:
  "0 < length (heap_gestores ejemplo) \<and> 0 < length (heap_libros ejemplo)
   \<and> 0 < length (heap_usuarios ejemplo) \<and> disponible (heap_libros ejemplo ! 0)
   \<and> realizar_prestamo 0 0 0 t_fin_rango (t_fin_rango + 1) ejemplo
        = Some (Inl OverflowError,
            ejemplo\<lparr>heap_libros :=
              (heap_libros ejemplo)[0 := (heap_libros ejemplo ! 0)\<lparr>disponible := False\<rparr>]\<rparr>)
   \<and> realizar_prestamo 0 0 0 t_fin_rango (t_fin_rango + 1) ejemplo
        \<noteq> Some (Inr (Some 0), ejemplo_prestado)"
proof -
  have h1: "0 < length (heap_gestores ejemplo)" by (simp add: ejemplo_def)
  have h2: "0 < length (heap_libros ejemplo)" by (simp add: ejemplo_def)
  have h3: "0 < length (heap_usuarios ejemplo)" by (simp add: ejemplo_def)
  have h4: "disponible (heap_libros ejemplo ! 0)" by (simp add: ejemplo_def Libro_init_def)
  have h5: "\<not> en_rango (t_fin_rango + 1 + timedelta_days 14)"
    by (simp add: en_rango_def datetime_min_def datetime_max_def t_fin_rango_def
        timedelta_days_def microseconds_per_day_def)
  from realizar_prestamo_overflow[OF h1 h2 h3 h4 h5, of t_fin_rango] h1 h2 h3 h4
  show ?thesis by simp
qed

text \<open>
  C2. Checkout of a book that is not available returns \<^verbatim>\<open>None\<close> (no exception), prints the
  line that says so, and changes no object: the books, the users, the loans and the managers
  with their lists are as before.
\<close>

theorem realizar_prestamo_libro_no_disponible:
  assumes "self < length (heap_gestores s)" and "l < length (heap_libros s)"
    and "u < length (heap_usuarios s)" and "\<not> disponible (heap_libros s ! l)"
  shows "\<exists>s'. realizar_prestamo self l u now1 now2 s = Some (Inr None, s')
           \<and> heap_libros s' = heap_libros s
           \<and> heap_usuarios s' = heap_usuarios s
           \<and> heap_prestamos s' = heap_prestamos s
           \<and> heap_gestores s' = heap_gestores s
           \<and> consola s' = consola s @ [NoDisponible (titulo (heap_libros s ! l))]"
  using assms by (simp add: realizar_prestamo_no_disponible)

theorem realizar_prestamo_libro_no_disponible_witness:
  "1 < length (heap_gestores ejemplo_prestado) \<and> 0 < length (heap_libros ejemplo_prestado)
   \<and> 1 < length (heap_usuarios ejemplo_prestado)
   \<and> \<not> disponible (heap_libros ejemplo_prestado ! 0)
   \<and> (\<exists>s'. realizar_prestamo 1 0 1 (t_prestamo + 7) (t_prestamo + 8) ejemplo_prestado = Some (Inr None, s')
           \<and> heap_libros s' = heap_libros ejemplo_prestado
           \<and> heap_usuarios s' = heap_usuarios ejemplo_prestado
           \<and> heap_prestamos s' = heap_prestamos ejemplo_prestado
           \<and> heap_gestores s' = heap_gestores ejemplo_prestado
           \<and> consola s' = consola ejemplo_prestado
                @ [NoDisponible (titulo (heap_libros ejemplo_prestado ! 0))])"
proof -
  have h1: "1 < length (heap_gestores ejemplo_prestado)" by (simp add: ejemplo_prestado_def)
  have h2: "0 < length (heap_libros ejemplo_prestado)" by (simp add: ejemplo_prestado_def)
  have h3: "1 < length (heap_usuarios ejemplo_prestado)" by (simp add: ejemplo_prestado_def)
  have h4: "\<not> disponible (heap_libros ejemplo_prestado ! 0)" by (simp add: ejemplo_prestado_def)
  from realizar_prestamo_libro_no_disponible[OF h1 h2 h3 h4, of "t_prestamo + 7" "t_prestamo + 8"]
    h1 h2 h3 h4
  show ?thesis by blast
qed

text \<open>
  C3. \<^verbatim>\<open>devolver_libro\<close> on a loan that is already returned prints the line that says so and
  changes no object: the loan, its book, every other loan and book, and the managers with
  their lists are as before.
\<close>

theorem devolver_libro_ya_devuelto:
  assumes "self < length (heap_gestores s)" and "p < length (heap_prestamos s)"
    and "libro (heap_prestamos s ! p) < length (heap_libros s)"
    and "usuario (heap_prestamos s ! p) < length (heap_usuarios s)"
    and "devuelto (heap_prestamos s ! p)"
  shows "\<exists>s'. devolver_libro self p now s = Some s'
           \<and> heap_prestamos s' = heap_prestamos s
           \<and> heap_libros s' = heap_libros s
           \<and> heap_usuarios s' = heap_usuarios s
           \<and> heap_gestores s' = heap_gestores s
           \<and> consola s' = consola s @ [YaDevuelto]"
  using assms by (simp add: devolver_libro_devuelto)

theorem devolver_libro_ya_devuelto_witness:
  "0 < length (heap_gestores ejemplo_devuelto) \<and> 0 < length (heap_prestamos ejemplo_devuelto)
   \<and> libro (heap_prestamos ejemplo_devuelto ! 0) < length (heap_libros ejemplo_devuelto)
   \<and> usuario (heap_prestamos ejemplo_devuelto ! 0) < length (heap_usuarios ejemplo_devuelto)
   \<and> devuelto (heap_prestamos ejemplo_devuelto ! 0)
   \<and> (\<exists>s'. devolver_libro 0 0 (t_prestamo + 9) ejemplo_devuelto = Some s'
           \<and> heap_prestamos s' = heap_prestamos ejemplo_devuelto
           \<and> heap_libros s' = heap_libros ejemplo_devuelto
           \<and> heap_usuarios s' = heap_usuarios ejemplo_devuelto
           \<and> heap_gestores s' = heap_gestores ejemplo_devuelto
           \<and> consola s' = consola ejemplo_devuelto @ [YaDevuelto])"
proof -
  have h1: "0 < length (heap_gestores ejemplo_devuelto)" by (simp add: ej_defs)
  have h2: "0 < length (heap_prestamos ejemplo_devuelto)" by (simp add: ej_defs)
  have h3: "libro (heap_prestamos ejemplo_devuelto ! 0) < length (heap_libros ejemplo_devuelto)"
    by (simp add: ej_defs)
  have h4: "usuario (heap_prestamos ejemplo_devuelto ! 0) < length (heap_usuarios ejemplo_devuelto)"
    by (simp add: ej_defs)
  have h5: "devuelto (heap_prestamos ejemplo_devuelto ! 0)" by (simp add: ej_defs)
  from devolver_libro_ya_devuelto[OF h1 h2 h3 h4 h5, of "t_prestamo + 9"] h1 h2 h3 h4 h5
  show ?thesis by blast
qed

text \<open>The same for the second of two calls: after any call of \<^verbatim>\<open>devolver_libro\<close> on a loan,
  the loan is returned and a further call, by any manager, changes no object.\<close>

lemma devolver_libro_dos_veces:
  assumes "devolver_libro self p now s = Some s1" and "self' < length (heap_gestores s1)"
  shows "devuelto (heap_prestamos s1 ! p)
         \<and> devolver_libro self' p now' s1 = Some (s1\<lparr>consola := consola s1 @ [YaDevuelto]\<rparr>)"
proof -
  from assms(1) have v: "self < length (heap_gestores s)" "p < length (heap_prestamos s)"
    "libro (heap_prestamos s ! p) < length (heap_libros s)"
    "usuario (heap_prestamos s ! p) < length (heap_usuarios s)"
    using devolver_libro_None[of self p now s] by auto
  show ?thesis
  proof (cases "devuelto (heap_prestamos s ! p)")
    case True
    with v assms show ?thesis
      by (auto simp: devolver_libro_devuelto)
  next
    case False
    with v assms(1) have d: "devuelto (heap_prestamos s1 ! p)"
      and "p < length (heap_prestamos s1)"
      and "libro (heap_prestamos s1 ! p) < length (heap_libros s1)"
      and "usuario (heap_prestamos s1 ! p) < length (heap_usuarios s1)"
      by (auto simp: devolver_libro_pendiente)
    with assms(2) show ?thesis
      by (simp add: devolver_libro_devuelto)
  qed
qed

text \<open>
  C4. \<^verbatim>\<open>devolver_libro\<close> on a loan that is not returned marks the loan as returned and its
  book as available, whatever the clock reading \<open>now\<close> (before, at or after the due time).
\<close>

theorem devolver_libro_marca_devuelto:
  assumes "self < length (heap_gestores s)" and "p < length (heap_prestamos s)"
    and "libro (heap_prestamos s ! p) < length (heap_libros s)"
    and "usuario (heap_prestamos s ! p) < length (heap_usuarios s)"
    and "\<not> devuelto (heap_prestamos s ! p)"
  shows "\<exists>s'. devolver_libro self p now s = Some s'
           \<and> devuelto (heap_prestamos s' ! p)
           \<and> libro (heap_prestamos s' ! p) = libro (heap_prestamos s ! p)
           \<and> disponible (heap_libros s' ! libro (heap_prestamos s ! p))"
  using assms by (simp add: devolver_libro_pendiente)

theorem devolver_libro_marca_devuelto_witness:
  "0 < length (heap_gestores ejemplo_prestado) \<and> 0 < length (heap_prestamos ejemplo_prestado)
   \<and> libro (heap_prestamos ejemplo_prestado ! 0) < length (heap_libros ejemplo_prestado)
   \<and> usuario (heap_prestamos ejemplo_prestado ! 0) < length (heap_usuarios ejemplo_prestado)
   \<and> \<not> devuelto (heap_prestamos ejemplo_prestado ! 0)
   \<and> (\<exists>s'. devolver_libro 0 0 (t_prestamo + 5) ejemplo_prestado = Some s'
           \<and> devuelto (heap_prestamos s' ! 0)
           \<and> libro (heap_prestamos s' ! 0) = libro (heap_prestamos ejemplo_prestado ! 0)
           \<and> disponible (heap_libros s' ! libro (heap_prestamos ejemplo_prestado ! 0)))
   \<and> devolver_libro 0 0 (t_prestamo + 5) ejemplo_prestado = Some ejemplo_devuelto"
proof -
  have h1: "0 < length (heap_gestores ejemplo_prestado)" by (simp add: ej_defs)
  have h2: "0 < length (heap_prestamos ejemplo_prestado)" by (simp add: ej_defs)
  have h3: "libro (heap_prestamos ejemplo_prestado ! 0) < length (heap_libros ejemplo_prestado)"
    by (simp add: ej_defs)
  have h4: "usuario (heap_prestamos ejemplo_prestado ! 0) < length (heap_usuarios ejemplo_prestado)"
    by (simp add: ej_defs)
  have h5: "\<not> devuelto (heap_prestamos ejemplo_prestado ! 0)" by (simp add: ej_defs)
  from devolver_libro_marca_devuelto[OF h1 h2 h3 h4 h5, of "t_prestamo + 5"] h1 h2 h3 h4 h5
    ejemplo_paso2
  show ?thesis by blast
qed

text \<open>
  C5. \<^verbatim>\<open>devolver_libro\<close> on a loan that is not returned computes a fine if and only if the
  clock reading is strictly after \<^verbatim>\<open>fecha_devolucion\<close>: then it prints the line \<open>Retraso\<close>
  with the whole days of \<open>now - fecha_devolucion\<close> and with \<^verbatim>\<open>calcular\<close> of the manager's
  calculator at that number of days; otherwise, and so for a return exactly at
  \<^verbatim>\<open>fecha_devolucion\<close>, it prints the on-time line and no fine.
\<close>

theorem devolver_libro_multa_solo_con_retraso:
  assumes "self < length (heap_gestores s)" and "p < length (heap_prestamos s)"
    and "libro (heap_prestamos s ! p) < length (heap_libros s)"
    and "usuario (heap_prestamos s ! p) < length (heap_usuarios s)"
    and "\<not> devuelto (heap_prestamos s ! p)"
  shows "\<exists>s' out. devolver_libro self p now s = Some s'
           \<and> consola s' = consola s @ out
           \<and> out =
                [if fecha_devolucion (heap_prestamos s ! p) < now
                 then Retraso (days (now - fecha_devolucion (heap_prestamos s ! p)))
                        (calcular (calculadora_multa (heap_gestores s ! self))
                           (days (now - fecha_devolucion (heap_prestamos s ! p))))
                 else ATiempo,
                 DevueltoPor (titulo (heap_libros s ! libro (heap_prestamos s ! p)))
                   (nombre (heap_usuarios s ! usuario (heap_prestamos s ! p)))]
           \<and> ((\<exists>dias multa. Retraso dias multa \<in> set out)
                 \<longleftrightarrow> fecha_devolucion (heap_prestamos s ! p) < now)
           \<and> (ATiempo \<in> set out \<longleftrightarrow> now \<le> fecha_devolucion (heap_prestamos s ! p))
           \<and> (now = fecha_devolucion (heap_prestamos s ! p) \<longrightarrow>
                out = [ATiempo, DevueltoPor (titulo (heap_libros s ! libro (heap_prestamos s ! p)))
                         (nombre (heap_usuarios s ! usuario (heap_prestamos s ! p)))])"
  using assms by (auto simp: devolver_libro_pendiente)

theorem devolver_libro_multa_solo_con_retraso_witness:
  "0 < length (heap_gestores ejemplo_prestado) \<and> 0 < length (heap_prestamos ejemplo_prestado)
   \<and> libro (heap_prestamos ejemplo_prestado ! 0) < length (heap_libros ejemplo_prestado)
   \<and> usuario (heap_prestamos ejemplo_prestado ! 0) < length (heap_usuarios ejemplo_prestado)
   \<and> \<not> devuelto (heap_prestamos ejemplo_prestado ! 0)
   \<and> (\<exists>s' out. devolver_libro 0 0 (t_prestamo + 1 + timedelta_days 14) ejemplo_prestado = Some s'
           \<and> consola s' = consola ejemplo_prestado @ out
           \<and> \<not> (\<exists>dias multa. Retraso dias multa \<in> set out)
           \<and> ATiempo \<in> set out
           \<and> out = [ATiempo, DevueltoPor ''1984'' ''Ana Garcia''])"
proof -
  have h1: "0 < length (heap_gestores ejemplo_prestado)" by (simp add: ej_defs)
  have h2: "0 < length (heap_prestamos ejemplo_prestado)" by (simp add: ej_defs)
  have h3: "libro (heap_prestamos ejemplo_prestado ! 0) < length (heap_libros ejemplo_prestado)"
    by (simp add: ej_defs)
  have h4: "usuario (heap_prestamos ejemplo_prestado ! 0) < length (heap_usuarios ejemplo_prestado)"
    by (simp add: ej_defs)
  have h5: "\<not> devuelto (heap_prestamos ejemplo_prestado ! 0)" by (simp add: ej_defs)
  have due: "fecha_devolucion (heap_prestamos ejemplo_prestado ! 0) = t_prestamo + 1 + timedelta_days 14"
    by (simp add: ej_defs)
  have t: "titulo (heap_libros ejemplo_prestado ! libro (heap_prestamos ejemplo_prestado ! 0)) = ''1984''"
    by (simp add: ej_defs)
  have n: "nombre (heap_usuarios ejemplo_prestado ! usuario (heap_prestamos ejemplo_prestado ! 0))
             = ''Ana Garcia''"
    by (simp add: ej_defs)
  from devolver_libro_multa_solo_con_retraso[OF h1 h2 h3 h4 h5, of "t_prestamo + 1 + timedelta_days 14"]
  have "\<exists>s' out. devolver_libro 0 0 (t_prestamo + 1 + timedelta_days 14) ejemplo_prestado = Some s'
           \<and> consola s' = consola ejemplo_prestado @ out
           \<and> \<not> (\<exists>dias multa. Retraso dias multa \<in> set out)
           \<and> ATiempo \<in> set out
           \<and> out = [ATiempo, DevueltoPor ''1984'' ''Ana Garcia'']"
    unfolding due t n by simp
  with h1 h2 h3 h4 h5 show ?thesis by blast
qed

text \<open>
  C6. When the clock reading is strictly after \<^verbatim>\<open>fecha_devolucion\<close>, the days of delay are
  the whole days of \<open>now - fecha_devolucion\<close> (its floor in days: \<open>dias\<close> days have passed and
  \<open>dias + 1\<close> days have not), and the fine printed is \<^verbatim>\<open>calcular\<close> of the manager's
  calculator at that number of days.
\<close>

theorem devolver_libro_dias_retraso:
  assumes "self < length (heap_gestores s)" and "p < length (heap_prestamos s)"
    and "libro (heap_prestamos s ! p) < length (heap_libros s)"
    and "usuario (heap_prestamos s ! p) < length (heap_usuarios s)"
    and "\<not> devuelto (heap_prestamos s ! p)"
    and "fecha_devolucion (heap_prestamos s ! p) < now"
  shows "\<exists>s' dias. devolver_libro self p now s = Some s'
           \<and> dias = days (now - fecha_devolucion (heap_prestamos s ! p))
           \<and> 0 \<le> dias
           \<and> timedelta_days dias \<le> now - fecha_devolucion (heap_prestamos s ! p)
           \<and> now - fecha_devolucion (heap_prestamos s ! p) < timedelta_days (dias + 1)
           \<and> consola s' = consola s @
                [Retraso dias (calcular (calculadora_multa (heap_gestores s ! self)) dias),
                 DevueltoPor (titulo (heap_libros s ! libro (heap_prestamos s ! p)))
                   (nombre (heap_usuarios s ! usuario (heap_prestamos s ! p)))]"
proof -
  let ?d = "now - fecha_devolucion (heap_prestamos s ! p)"
  have "0 \<le> ?d" using assms(6) by simp
  then have "0 \<le> days ?d" by (rule days_nonneg)
  moreover have "timedelta_days (days ?d) \<le> ?d" by (rule days_lower)
  moreover have "?d < timedelta_days (days ?d + 1)" by (rule days_upper)
  ultimately show ?thesis
    using assms by (simp add: devolver_libro_pendiente)
qed

theorem devolver_libro_dias_retraso_witness:
  "0 < length (heap_gestores ejemplo_prestado) \<and> 0 < length (heap_prestamos ejemplo_prestado)
   \<and> libro (heap_prestamos ejemplo_prestado ! 0) < length (heap_libros ejemplo_prestado)
   \<and> usuario (heap_prestamos ejemplo_prestado ! 0) < length (heap_usuarios ejemplo_prestado)
   \<and> \<not> devuelto (heap_prestamos ejemplo_prestado ! 0)
   \<and> fecha_devolucion (heap_prestamos ejemplo_prestado ! 0) < t_prestamo + 501 + timedelta_days 17
   \<and> days (t_prestamo + 501 + timedelta_days 17
              - fecha_devolucion (heap_prestamos ejemplo_prestado ! 0)) = 3
   \<and> (\<exists>s'. devolver_libro 0 0 (t_prestamo + 501 + timedelta_days 17) ejemplo_prestado = Some s'
           \<and> consola s' = consola ejemplo_prestado @
                [Retraso 3 30, DevueltoPor ''1984'' ''Ana Garcia''])"
proof -
  have h1: "0 < length (heap_gestores ejemplo_prestado)" by (simp add: ej_defs)
  have h2: "0 < length (heap_prestamos ejemplo_prestado)" by (simp add: ej_defs)
  have h3: "libro (heap_prestamos ejemplo_prestado ! 0) < length (heap_libros ejemplo_prestado)"
    by (simp add: ej_defs)
  have h4: "usuario (heap_prestamos ejemplo_prestado ! 0) < length (heap_usuarios ejemplo_prestado)"
    by (simp add: ej_defs)
  have h5: "\<not> devuelto (heap_prestamos ejemplo_prestado ! 0)" by (simp add: ej_defs)
  have h6: "fecha_devolucion (heap_prestamos ejemplo_prestado ! 0)
              < t_prestamo + 501 + timedelta_days 17"
    by (simp add: ej_defs timedelta_days_def microseconds_per_day_def)
  have d: "days (t_prestamo + 501 + timedelta_days 17
              - fecha_devolucion (heap_prestamos ejemplo_prestado ! 0)) = 3"
    by (simp add: ej_defs days_def timedelta_days_def microseconds_per_day_def)
  have c: "calculadora_multa (heap_gestores ejemplo_prestado ! 0) = MultaEstandar"
    by (simp add: ej_defs)
  have t: "titulo (heap_libros ejemplo_prestado ! libro (heap_prestamos ejemplo_prestado ! 0)) = ''1984''"
    by (simp add: ej_defs)
  have n: "nombre (heap_usuarios ejemplo_prestado ! usuario (heap_prestamos ejemplo_prestado ! 0))
             = ''Ana Garcia''"
    by (simp add: ej_defs)
  from devolver_libro_dias_retraso[OF h1 h2 h3 h4 h5 h6]
  have "\<exists>s'. devolver_libro 0 0 (t_prestamo + 501 + timedelta_days 17) ejemplo_prestado = Some s'
           \<and> consola s' = consola ejemplo_prestado @
                [Retraso 3 30, DevueltoPor ''1984'' ''Ana Garcia'']"
    unfolding d c t n by auto
  with h1 h2 h3 h4 h5 h6 d show ?thesis by blast
qed

text \<open>
  C7. The three calculators: ten per day, five per day, and nothing; so all three give
  \<open>0\<close> for no delay, and \<open>30\<close>, \<open>15\<close> and \<open>0\<close> for three days.
\<close>

theorem calcular_variantes:
  "calcular MultaEstandar d = d * 10 \<and> calcular MultaEstudiante d = d * 5
   \<and> calcular MultaVIP d = 0
   \<and> calcular MultaEstandar 0 = 0 \<and> calcular MultaEstudiante 0 = 0 \<and> calcular MultaVIP 0 = 0
   \<and> calcular MultaEstandar 3 = 30 \<and> calcular MultaEstudiante 3 = 15 \<and> calcular MultaVIP 3 = 0"
  by simp

text \<open>The two times of a new loan: the checkout time is the first clock reading, the due
  time is fourteen days after the second; they are fourteen days apart exactly when the two
  readings are the same instant.\<close>

lemma realizar_prestamo_fechas:
  assumes "realizar_prestamo self l u now1 now2 s = Some (Inr (Some p), s')"
  shows "fecha_prestamo (heap_prestamos s' ! p) = now1
         \<and> fecha_devolucion (heap_prestamos s' ! p) = now2 + timedelta_days 14
         \<and> (fecha_devolucion (heap_prestamos s' ! p)
              = fecha_prestamo (heap_prestamos s' ! p) + timedelta_days 14 \<longleftrightarrow> now1 = now2)"
proof -
  from assms have v: "self < length (heap_gestores s)" "l < length (heap_libros s)"
    "u < length (heap_usuarios s)"
    using realizar_prestamo_None[of self l u now1 now2 s] by auto
  have d: "disponible (heap_libros s ! l)"
  proof (rule ccontr)
    assume "\<not> disponible (heap_libros s ! l)"
    with v assms show False by (simp add: realizar_prestamo_no_disponible)
  qed
  have "en_rango (now2 + timedelta_days 14)"
  proof (rule ccontr)
    assume "\<not> en_rango (now2 + timedelta_days 14)"
    with v d assms show False by (simp add: realizar_prestamo_overflow)
  qed
  with v d assms show ?thesis
    by (auto simp: realizar_prestamo_disponible)
qed

text \<open>
  C8. A loan should be due exactly fourteen days after its checkout time, but
  \<^verbatim>\<open>Prestamo.__init__\<close> reads the clock twice: \<^verbatim>\<open>fecha_prestamo\<close> is the first reading and
  \<^verbatim>\<open>fecha_devolucion\<close> is fourteen days after the second. For the first loan of \<^verbatim>\<open>main\<close>,
  with the second reading one microsecond after the first, the loan is due fourteen days and
  one microsecond after its checkout time.
\<close>

theorem realizar_prestamo_dos_lecturas_del_reloj:
  "realizar_prestamo 0 0 0 t_prestamo (t_prestamo + 1) ejemplo
       = Some (Inr (Some 0), ejemplo_prestado)
   \<and> fecha_devolucion (heap_prestamos ejemplo_prestado ! 0)
       = fecha_prestamo (heap_prestamos ejemplo_prestado ! 0) + timedelta_days 14 + 1
   \<and> fecha_devolucion (heap_prestamos ejemplo_prestado ! 0)
       \<noteq> fecha_prestamo (heap_prestamos ejemplo_prestado ! 0) + timedelta_days 14"
  by (simp add: ejemplo_paso) (simp add: ejemplo_prestado_def)

text \<open>
  C10. \<^verbatim>\<open>devolver_libro\<close> on a loan that is not returned changes the flag \<^verbatim>\<open>devuelto\<close> of that
  loan and the flag \<^verbatim>\<open>disponible\<close> of its book, and nothing else in the store: the managers
  and their lists, the users, the number of loans and of books, the other fields of the loan
  and of the book, and every other loan and book are as before.
\<close>

theorem devolver_libro_marco:
  assumes "self < length (heap_gestores s)" and "p < length (heap_prestamos s)"
    and "libro (heap_prestamos s ! p) < length (heap_libros s)"
    and "usuario (heap_prestamos s ! p) < length (heap_usuarios s)"
    and "\<not> devuelto (heap_prestamos s ! p)"
  shows "\<exists>s'. devolver_libro self p now s = Some s'
           \<and> heap_gestores s' = heap_gestores s
           \<and> heap_usuarios s' = heap_usuarios s
           \<and> heap_prestamos s' = (heap_prestamos s)[p := (heap_prestamos s ! p)\<lparr>devuelto := True\<rparr>]
           \<and> heap_libros s' = (heap_libros s)[libro (heap_prestamos s ! p) :=
                (heap_libros s ! libro (heap_prestamos s ! p))\<lparr>disponible := True\<rparr>]
           \<and> length (heap_prestamos s') = length (heap_prestamos s)
           \<and> length (heap_libros s') = length (heap_libros s)
           \<and> (\<forall>q. q \<noteq> p \<longrightarrow> heap_prestamos s' ! q = heap_prestamos s ! q)
           \<and> (\<forall>b. b \<noteq> libro (heap_prestamos s ! p) \<longrightarrow> heap_libros s' ! b = heap_libros s ! b)
           \<and> libro (heap_prestamos s' ! p) = libro (heap_prestamos s ! p)
           \<and> usuario (heap_prestamos s' ! p) = usuario (heap_prestamos s ! p)
           \<and> fecha_prestamo (heap_prestamos s' ! p) = fecha_prestamo (heap_prestamos s ! p)
           \<and> fecha_devolucion (heap_prestamos s' ! p) = fecha_devolucion (heap_prestamos s ! p)
           \<and> (\<forall>g < length (heap_gestores s).
                 p \<in> set (prestamos (heap_gestores s ! g))
                 \<longrightarrow> p \<in> set (prestamos (heap_gestores s' ! g)))"
  using assms by (simp add: devolver_libro_pendiente)

theorem devolver_libro_marco_witness:
  "0 < length (heap_gestores ejemplo_prestado) \<and> 0 < length (heap_prestamos ejemplo_prestado)
   \<and> libro (heap_prestamos ejemplo_prestado ! 0) < length (heap_libros ejemplo_prestado)
   \<and> usuario (heap_prestamos ejemplo_prestado ! 0) < length (heap_usuarios ejemplo_prestado)
   \<and> \<not> devuelto (heap_prestamos ejemplo_prestado ! 0)
   \<and> devolver_libro 0 0 (t_prestamo + 5) ejemplo_prestado = Some ejemplo_devuelto
   \<and> heap_gestores ejemplo_devuelto = heap_gestores ejemplo_prestado
   \<and> heap_usuarios ejemplo_devuelto = heap_usuarios ejemplo_prestado
   \<and> length (heap_prestamos ejemplo_devuelto) = length (heap_prestamos ejemplo_prestado)
   \<and> heap_libros ejemplo_devuelto ! 1 = heap_libros ejemplo_prestado ! 1
   \<and> fecha_devolucion (heap_prestamos ejemplo_devuelto ! 0)
        = fecha_devolucion (heap_prestamos ejemplo_prestado ! 0)
   \<and> 0 \<in> set (prestamos (heap_gestores ejemplo_devuelto ! 0))"
proof -
  have h1: "0 < length (heap_gestores ejemplo_prestado)" by (simp add: ej_defs)
  have h2: "0 < length (heap_prestamos ejemplo_prestado)" by (simp add: ej_defs)
  have h3: "libro (heap_prestamos ejemplo_prestado ! 0) < length (heap_libros ejemplo_prestado)"
    by (simp add: ej_defs)
  have h4: "usuario (heap_prestamos ejemplo_prestado ! 0) < length (heap_usuarios ejemplo_prestado)"
    by (simp add: ej_defs)
  have h5: "\<not> devuelto (heap_prestamos ejemplo_prestado ! 0)" by (simp add: ej_defs)
  have l: "libro (heap_prestamos ejemplo_prestado ! 0) = 0" by (simp add: ej_defs)
  have m: "0 \<in> set (prestamos (heap_gestores ejemplo_prestado ! 0))" by (simp add: ej_defs)
  from devolver_libro_marco[OF h1 h2 h3 h4 h5, of "t_prestamo + 5"] ejemplo_paso2
  have "heap_gestores ejemplo_devuelto = heap_gestores ejemplo_prestado
      \<and> heap_usuarios ejemplo_devuelto = heap_usuarios ejemplo_prestado
      \<and> length (heap_prestamos ejemplo_devuelto) = length (heap_prestamos ejemplo_prestado)
      \<and> heap_libros ejemplo_devuelto ! 1 = heap_libros ejemplo_prestado ! 1
      \<and> fecha_devolucion (heap_prestamos ejemplo_devuelto ! 0)
           = fecha_devolucion (heap_prestamos ejemplo_prestado ! 0)
      \<and> 0 \<in> set (prestamos (heap_gestores ejemplo_devuelto ! 0))"
    using l m h1 by auto
  with h1 h2 h3 h4 h5 ejemplo_paso2 show ?thesis by blast
qed

section \<open>The availability invariant\<close>

lemma inicial_invariante: "inicial s \<Longrightarrow> invariante s"
  by (auto simp: inicial_def invariante_def heap_ok_def prestado_no_disponible_def
      un_prestamo_por_libro_def dest: nth_mem)

lemma realizar_prestamo_invariante:
  assumes inv: "invariante s" and r: "realizar_prestamo self l u now1 now2 s = Some (r, s')"
  shows "invariante s'"
proof -
  from r have v: "self < length (heap_gestores s)" "l < length (heap_libros s)"
    "u < length (heap_usuarios s)"
    using realizar_prestamo_None[of self l u now1 now2 s] by auto
  from inv have ok: "heap_ok s" and nd: "prestado_no_disponible s"
    and un: "un_prestamo_por_libro s" by (simp_all add: invariante_def)
  consider (no_disponible) "\<not> disponible (heap_libros s ! l)"
    | (overflow) "disponible (heap_libros s ! l)" "\<not> en_rango (now2 + timedelta_days 14)"
    | (prestado) "disponible (heap_libros s ! l)" "en_rango (now2 + timedelta_days 14)"
    by blast
  then show ?thesis
  proof cases
    case no_disponible
    with v r inv show ?thesis
      by (auto simp: realizar_prestamo_no_disponible invariante_def heap_ok_def
          prestado_no_disponible_def un_prestamo_por_libro_def)
  next
    case overflow
    with r v have s': "s' = s\<lparr>heap_libros :=
        (heap_libros s)[l := (heap_libros s ! l)\<lparr>disponible := False\<rparr>]\<rparr>"
      by (simp add: realizar_prestamo_overflow)
    have "heap_ok s'"
      using ok unfolding s' heap_ok_def by simp
    moreover have "prestado_no_disponible s'"
      using nd v ok unfolding s' prestado_no_disponible_def heap_ok_def
      by (auto simp: nth_list_update)
    moreover have "un_prestamo_por_libro s'"
      using un unfolding s' un_prestamo_por_libro_def by simp
    ultimately show ?thesis by (simp add: invariante_def)
  next
    case prestado
    with r v have s': "s' = s\<lparr>heap_libros := (heap_libros s)[l := (heap_libros s ! l)\<lparr>disponible := False\<rparr>],
               heap_prestamos := heap_prestamos s @
                 [\<lparr>libro = l, usuario = u, fecha_prestamo = now1,
                   fecha_devolucion = now2 + timedelta_days 14, devuelto = False\<rparr>],
               heap_gestores := (heap_gestores s)[self := (heap_gestores s ! self)
                  \<lparr>prestamos := prestamos (heap_gestores s ! self) @ [length (heap_prestamos s)]\<rparr>],
               consola := consola s @
                 [fst (enviar (notificador (heap_gestores s ! self))
                    (HasPrestado (titulo (heap_libros s ! l)) (now2 + timedelta_days 14))
                    (nombre (heap_usuarios s ! u))),
                  PrestamoRealizado (titulo (heap_libros s ! l)) (nombre (heap_usuarios s ! u))]\<rparr>"
      by (simp add: realizar_prestamo_disponible)
    have libre: "\<And>q. q < length (heap_prestamos s) \<Longrightarrow> \<not> devuelto (heap_prestamos s ! q)
       \<Longrightarrow> libro (heap_prestamos s ! q) \<noteq> l"
      using nd prestado(1) by (auto simp: prestado_no_disponible_def)
    have "heap_ok s'"
      using ok v unfolding s' heap_ok_def
      by (auto simp: nth_append nth_list_update less_Suc_eq)
    moreover have "prestado_no_disponible s'"
      using nd v unfolding s' prestado_no_disponible_def
      by (auto simp: nth_append nth_list_update less_Suc_eq)
    moreover have "un_prestamo_por_libro s'"
      using un v libre unfolding s' un_prestamo_por_libro_def
      by (auto simp: nth_append nth_list_update less_Suc_eq)
    ultimately show ?thesis by (simp add: invariante_def)
  qed
qed

lemma devolver_libro_invariante:
  assumes inv: "invariante s" and r: "devolver_libro self p now s = Some s'"
  shows "invariante s'"
proof -
  from r have v: "self < length (heap_gestores s)" "p < length (heap_prestamos s)"
    "libro (heap_prestamos s ! p) < length (heap_libros s)"
    "usuario (heap_prestamos s ! p) < length (heap_usuarios s)"
    using devolver_libro_None[of self p now s] by auto
  show ?thesis
  proof (cases "devuelto (heap_prestamos s ! p)")
    case True
    with v r inv show ?thesis
      by (auto simp: devolver_libro_devuelto invariante_def heap_ok_def
          prestado_no_disponible_def un_prestamo_por_libro_def)
  next
    case False
    from inv have ok: "heap_ok s" and nd: "prestado_no_disponible s"
      and un: "un_prestamo_por_libro s" by (simp_all add: invariante_def)
    define out where "out = consola s'"
    from r v False have s': "s' = s\<lparr>heap_prestamos := (heap_prestamos s)[p := (heap_prestamos s ! p)\<lparr>devuelto := True\<rparr>],
             heap_libros := (heap_libros s)[libro (heap_prestamos s ! p) :=
                 (heap_libros s ! libro (heap_prestamos s ! p))\<lparr>disponible := True\<rparr>],
             consola := out\<rparr>"
      unfolding out_def by (auto simp: devolver_libro_pendiente)
    have otro: "\<And>q. q < length (heap_prestamos s) \<Longrightarrow> \<not> devuelto (heap_prestamos s ! q)
       \<Longrightarrow> q \<noteq> p \<Longrightarrow> libro (heap_prestamos s ! q) \<noteq> libro (heap_prestamos s ! p)"
      using un False v(2) unfolding un_prestamo_por_libro_def by blast
    have "heap_ok s'"
      using ok v unfolding s' heap_ok_def
      by (auto simp: nth_list_update)
    moreover have "prestado_no_disponible s'"
      unfolding prestado_no_disponible_def
    proof (intro allI impI)
      fix q
      assume q: "q < length (heap_prestamos s')" and nq: "\<not> devuelto (heap_prestamos s' ! q)"
      from q have q': "q < length (heap_prestamos s)" by (simp add: s')
      from nq v(2) have qp: "q \<noteq> p" by (auto simp: s')
      with nq have nq': "\<not> devuelto (heap_prestamos s ! q)" by (simp add: s')
      from otro[OF q' nq' qp]
      have lq: "libro (heap_prestamos s ! q) \<noteq> libro (heap_prestamos s ! p)" .
      from nd q' nq' have "\<not> disponible (heap_libros s ! libro (heap_prestamos s ! q))"
        by (simp add: prestado_no_disponible_def)
      with qp lq show "\<not> disponible (heap_libros s' ! libro (heap_prestamos s' ! q))"
        by (simp add: s')
    qed
    moreover have "un_prestamo_por_libro s'"
      using un v unfolding s' un_prestamo_por_libro_def
      by (auto simp: nth_list_update)
    ultimately show ?thesis by (simp add: invariante_def)
  qed
qed

lemma ejecutar_invariante: "invariante s \<Longrightarrow> ejecutar c s = Some s' \<Longrightarrow> invariante s'"
  by (cases c) (auto intro: realizar_prestamo_invariante devolver_libro_invariante)

lemma ejecutar_todas_invariante:
  "invariante s \<Longrightarrow> ejecutar_todas cs s = Some s' \<Longrightarrow> invariante s'"
proof (induction cs arbitrary: s)
  case Nil
  then show ?case by simp
next
  case (Cons c cs)
  then show ?case by (auto split: option.splits dest: ejecutar_invariante)
qed

lemma ejecutar_total:
  assumes "heap_ok s" "llamada_valida c s"
  shows "\<exists>s'. ejecutar c s = Some s'"
proof (cases c)
  case (RealizarPrestamo self l u now1 now2)
  with assms have "realizar_prestamo self l u now1 now2 s \<noteq> None"
    by (simp add: realizar_prestamo_None llamada_valida_def)
  with RealizarPrestamo show ?thesis by auto
next
  case (DevolverLibro self p now)
  with assms have "devolver_libro self p now s \<noteq> None"
    by (simp add: devolver_libro_None llamada_valida_def heap_ok_def)
  with DevolverLibro show ?thesis by auto
qed

text \<open>
  C9. In every state that a run reaches from an initial state, whatever the calls of
  \<^verbatim>\<open>realizar_prestamo\<close> and \<^verbatim>\<open>devolver_libro\<close> and whichever branch each of them takes: if a
  loan \<open>p\<close> of the list of a manager \<open>g\<close> refers to the book \<open>b\<close> and is not returned, then
  \<open>b\<close> is not available (and \<open>p\<close> and \<open>b\<close> are objects of the store).
\<close>

theorem disponibilidad_invariante:
  assumes "inicial s0" and "ejecutar_todas cs s0 = Some s"
    and "g < length (heap_gestores s)" and "p \<in> set (prestamos (heap_gestores s ! g))"
    and "libro (heap_prestamos s ! p) = b" and "\<not> devuelto (heap_prestamos s ! p)"
  shows "p < length (heap_prestamos s) \<and> b < length (heap_libros s)
         \<and> \<not> disponible (heap_libros s ! b)"
proof -
  have inv: "invariante s"
    using assms(1,2) by (blast intro: inicial_invariante ejecutar_todas_invariante)
  then have p: "p < length (heap_prestamos s)"
    using assms(3,4) by (auto simp: invariante_def heap_ok_def)
  with inv assms(5,6) show ?thesis
    by (auto simp: invariante_def heap_ok_def prestado_no_disponible_def)
qed

theorem disponibilidad_invariante_witness:
  "inicial ejemplo
   \<and> ejecutar_todas [RealizarPrestamo 0 0 0 t_prestamo (t_prestamo + 1)] ejemplo = Some ejemplo_prestado
   \<and> 0 < length (heap_gestores ejemplo_prestado)
   \<and> 0 \<in> set (prestamos (heap_gestores ejemplo_prestado ! 0))
   \<and> libro (heap_prestamos ejemplo_prestado ! 0) = 0
   \<and> \<not> devuelto (heap_prestamos ejemplo_prestado ! 0)
   \<and> (0 < length (heap_prestamos ejemplo_prestado) \<and> 0 < length (heap_libros ejemplo_prestado)
         \<and> \<not> disponible (heap_libros ejemplo_prestado ! 0))"
proof -
  have h1: "inicial ejemplo"
    by (simp add: inicial_def ejemplo_def GestorPrestamos_init_def)
  have h2: "ejecutar_todas [RealizarPrestamo 0 0 0 t_prestamo (t_prestamo + 1)] ejemplo
              = Some ejemplo_prestado"
    by (simp add: ejemplo_paso)
  have h3: "0 < length (heap_gestores ejemplo_prestado)"
    by (simp add: ejemplo_prestado_def)
  have h4: "0 \<in> set (prestamos (heap_gestores ejemplo_prestado ! 0))"
    by (simp add: ejemplo_prestado_def)
  have h5: "libro (heap_prestamos ejemplo_prestado ! 0) = 0"
    by (simp add: ejemplo_prestado_def)
  have h6: "\<not> devuelto (heap_prestamos ejemplo_prestado ! 0)"
    by (simp add: ejemplo_prestado_def)
  from disponibilidad_invariante[OF h1 h2 h3 h4 h5 h6] h1 h2 h3 h4 h5 h6
  show ?thesis by blast
qed

end
